theory Spec2Isabelle
  imports Main "HOL-Library.Word"
begin

section \<open>The host interface (Node-API) as the addon sees it\<close>

text \<open>
  The addon of this repository is two translation units, \<^verbatim>\<open>src/native/test.cpp\<close>
  (\<^verbatim>\<open>balda::addNumbers\<close>, \<^verbatim>\<open>balda::init\<close>) and \<^verbatim>\<open>src/native/binding.cpp\<close>
  (\<^verbatim>\<open>balda::Init\<close>, registered by \<^verbatim>\<open>NAPI_MODULE\<close>). Everything they do goes through
  calls of the host's C interface, declared in \<^verbatim>\<open>node_api.h\<close>. The host is not part of
  the repository; this section fixes a model of the six host functions the addon calls, after the
  Node-API reference, and the two sections after it embed the addon's own functions
  statement by statement.

  \<^item> A \<^verbatim>\<open>napi_value\<close> is a handle to a JavaScript value: a primitive, or a reference to
    an object of the host's heap. Of the JavaScript numbers the model keeps the
    integer-valued ones (\<open>Number i\<close>); fractional and non-finite doubles are outside it.
  \<^item> \<^verbatim>\<open>int32_t\<close> is a 32-bit word. Addition is the addition of the compiled code, which
    wraps modulo \<open>2 ^ 32\<close>; \<open>sint\<close> reads a word as two's complement.
  \<^item> A local variable declared without an initialiser holds whatever its storage held
    before. The embedded functions take that content as an argument, and a host call with
    an out-parameter takes the present content of the variable and returns the new one, so
    that a call which fails and writes nothing leaves the old content in place.
\<close>

type_synonym int32_t = "32 word"

datatype napi_status =
    napi_ok
  | napi_invalid_arg
  | napi_object_expected
  | napi_string_expected
  | napi_name_expected
  | napi_function_expected
  | napi_number_expected
  | napi_boolean_expected
  | napi_array_expected
  | napi_generic_failure
  | napi_pending_exception
  | napi_cancelled
  | napi_escape_called_twice
  | napi_handle_scope_mismatch
  | napi_callback_scope_mismatch
  | napi_queue_full
  | napi_closing
  | napi_bigint_expected
  | napi_date_expected
  | napi_arraybuffer_expected
  | napi_detachable_arraybuffer_expected
  | napi_would_deadlock
  | napi_no_external_buffers_allowed
  | napi_cannot_run_js

text \<open>The native callbacks of the addon: the function pointers it hands to the host.\<close>

datatype napi_callback = AddNumbers

datatype napi_value =
    Undefined
  | Null
  | Boolean bool
  | Number int
  | String string
  | Ref nat

text \<open>
  What a store to a named property of an object does. An ordinary object takes the value.
  A frozen or non-extensible object, or a property that is read-only, stays as it is, and
  the store is still reported as done. A setter behind the property may throw.
\<close>

datatype store_outcome = Stores | Ignores | Throws string

text \<open>
  An object of the host's heap: its properties by name, the native callback behind it
  when it is a function created by \<^verbatim>\<open>napi_create_function\<close>, and what a store to each
  property name does.
\<close>

record js_object =
  callable :: "napi_callback option"
  fn_name :: "string option"
  properties :: "string \<rightharpoonup> napi_value"
  on_set :: "string \<Rightarrow> store_outcome"

text \<open>
  The environment \<^verbatim>\<open>napi_env\<close>: the heap (a handle \<open>Ref h\<close> refers to the object at
  index \<open>h\<close>, and a new object is appended, so that its handle is fresh), the message of
  the pending JavaScript exception if there is one, and the host's answer to the two calls
  that can fail for reasons the addon cannot see (\<open>napi_ok\<close>: the host is able to do what
  is asked). A call of the host can fail in two ways: with a status only, or by raising a
  JavaScript exception of its own, which is then the pending one.
\<close>

record napi_env =
  heap :: "js_object list"
  pending_exception :: "string option"
  create_function_fault :: napi_status
  set_named_property_fault :: napi_status

text \<open>What the host passes to a native callback: the arguments of the call and \<^verbatim>\<open>this\<close>.\<close>

record napi_callback_info =
  cb_args :: "napi_value list"
  cb_this :: napi_value

text \<open>
  \<^verbatim>\<open>napi_get_cb_info(env, info, &argc, argv, nullptr, nullptr)\<close>: on entry \<open>argc\<close> is the
  size of the array \<open>argv\<close>; the call stores the actual number of arguments in \<open>argc\<close>
  and fills the whole array: the first arguments of the call, as many as fit, and
  \<open>Undefined\<close> in every place left.
\<close>

definition napi_get_cb_info ::
  "napi_env \<Rightarrow> napi_callback_info \<Rightarrow> nat \<Rightarrow> napi_status \<times> nat \<times> napi_value list"
where
  "napi_get_cb_info env info argc =
     (napi_ok, length (cb_args info),
      take argc (cb_args info) @ replicate (argc - length (cb_args info)) Undefined)"

text \<open>
  \<^verbatim>\<open>napi_get_value_int32(env, value, &result)\<close>: a number is stored in \<open>result\<close>, reduced
  to its low 32 bits when it is out of range; for any other value the call returns
  \<open>napi_number_expected\<close> and does not write \<open>result\<close>.
\<close>

definition napi_get_value_int32 ::
  "napi_env \<Rightarrow> napi_value \<Rightarrow> int32_t \<Rightarrow> napi_status \<times> int32_t"
where
  "napi_get_value_int32 env v result =
     (case v of
        Number i \<Rightarrow> (napi_ok, word_of_int i)
      | _ \<Rightarrow> (napi_number_expected, result))"

text \<open>\<^verbatim>\<open>napi_create_int32(env, value, &result)\<close>: the JavaScript number of that value.\<close>

definition napi_create_int32 :: "napi_env \<Rightarrow> int32_t \<Rightarrow> napi_status \<times> napi_value" where
  "napi_create_int32 env v = (napi_ok, Number (sint v))"

text \<open>
  \<^verbatim>\<open>napi_create_function(env, utf8name, length, cb, data, &result)\<close>: refused while an
  exception is pending; otherwise, unless the host cannot create the function, a new
  function object is allocated and its handle stored in \<open>result\<close>. A call that fails
  writes nothing.
\<close>

definition napi_create_function ::
  "napi_env \<Rightarrow> string option \<Rightarrow> nat \<Rightarrow> napi_callback \<Rightarrow> napi_value
     \<Rightarrow> napi_status \<times> napi_value \<times> napi_env"
where
  "napi_create_function env utf8name len cb result =
     (if pending_exception env \<noteq> None then (napi_pending_exception, result, env)
      else if create_function_fault env \<noteq> napi_ok then (create_function_fault env, result, env)
      else (napi_ok, Ref (length (heap env)),
            env\<lparr>heap := heap env @
                   [\<lparr>callable = Some cb, fn_name = utf8name, properties = Map.empty,
                     on_set = (\<lambda>name. Stores)\<rparr>]\<rparr>))"

text \<open>
  \<^verbatim>\<open>napi_set_named_property(env, object, utf8name, value)\<close>: refused while an exception is
  pending. When \<open>object\<close> cannot be converted to an object (\<open>undefined\<close>, \<open>null\<close>; also a
  handle that refers to no object) the conversion raises a \<open>TypeError\<close> and the status is
  \<open>napi_object_expected\<close>. On an object of the heap the store does what the object says for
  that name: the property is set; or nothing changes and the call answers \<open>napi_ok\<close> all
  the same; or the setter's exception is left pending and the status is
  \<open>napi_generic_failure\<close>. The host may also report a failure of its own, by status only.
  On a primitive the store goes to a temporary wrapper object and leaves nothing behind.
\<close>

definition napi_set_named_property ::
  "napi_env \<Rightarrow> napi_value \<Rightarrow> string \<Rightarrow> napi_value \<Rightarrow> napi_status \<times> napi_env"
where
  "napi_set_named_property env object utf8name v =
     (if pending_exception env \<noteq> None then (napi_pending_exception, env)
      else case object of
        Undefined \<Rightarrow>
          (napi_object_expected,
           env\<lparr>pending_exception :=
                 Some ''TypeError: Cannot convert undefined or null to object''\<rparr>)
      | Null \<Rightarrow>
          (napi_object_expected,
           env\<lparr>pending_exception :=
                 Some ''TypeError: Cannot convert undefined or null to object''\<rparr>)
      | Ref h \<Rightarrow>
          if \<not> h < length (heap env)
            then (napi_object_expected,
                  env\<lparr>pending_exception :=
                        Some ''TypeError: Cannot convert undefined or null to object''\<rparr>)
          else if set_named_property_fault env \<noteq> napi_ok
            then (set_named_property_fault env, env)
          else (case on_set (heap env ! h) utf8name of
                  Stores \<Rightarrow>
                    (napi_ok,
                     env\<lparr>heap := (heap env)
                       [h := (heap env ! h)
                          \<lparr>properties := (properties (heap env ! h))(utf8name \<mapsto> v)\<rparr>]\<rparr>)
                | Ignores \<Rightarrow> (napi_ok, env)
                | Throws m \<Rightarrow> (napi_generic_failure, env\<lparr>pending_exception := Some m\<rparr>))
      | _ \<Rightarrow>
          if set_named_property_fault env \<noteq> napi_ok
            then (set_named_property_fault env, env)
          else (napi_ok, env))"

text \<open>
  \<^verbatim>\<open>napi_throw_error(env, code, msg)\<close>: throws a JavaScript \<open>Error\<close> with that message.
  While an exception is already pending the call is refused and that exception stays.
\<close>

definition napi_throw_error ::
  "napi_env \<Rightarrow> string option \<Rightarrow> string \<Rightarrow> napi_status \<times> napi_env"
where
  "napi_throw_error env code msg =
     (if pending_exception env \<noteq> None then (napi_pending_exception, env)
      else (napi_ok, env\<lparr>pending_exception := Some msg\<rparr>))"

section \<open>\<^verbatim>\<open>src/native/test.cpp\<close>\<close>

text \<open>
  \<^verbatim>\<open>napi_value addNumbers(napi_env env, napi_callback_info info)\<close>. The pair \<open>uninit\<close> is
  the content of the locals \<open>a\<close> and \<open>b\<close> at their declaration
  \<^verbatim>\<open>int32_t a, b;\<close>. The array \<open>args\<close> and \<open>result_value\<close> are written in full by the
  host before they are read. No status is looked at. The function returns its value and
  the environment as the calls left it.
\<close>

definition addNumbers ::
  "napi_env \<Rightarrow> napi_callback_info \<Rightarrow> int32_t \<times> int32_t \<Rightarrow> napi_value \<times> napi_env"
where
  "addNumbers env info uninit =
     (let argc = 2;
          (status0, argc, args) = napi_get_cb_info env info argc;
          (a, b) = uninit;
          (status1, a) = napi_get_value_int32 env (args ! 0) a;
          (status2, b) = napi_get_value_int32 env (args ! 1) b;
          result = a + b;
          (status3, result_value) = napi_create_int32 env result
      in (result_value, env))"

text \<open>
  \<^verbatim>\<open>napi_value init(napi_env env, napi_value exports)\<close>, the registration routine of
  \<^verbatim>\<open>test.cpp\<close>. \<open>uninit\<close> is the content of \<open>add_numbers_fn\<close> at its declaration. The
  result is an optional handle, \<open>None\<close> for \<^verbatim>\<open>nullptr\<close>.
\<close>

definition init :: "napi_env \<Rightarrow> napi_value \<Rightarrow> napi_value \<Rightarrow> napi_value option \<times> napi_env" where
  "init env exports uninit =
     (let add_numbers_fn = uninit;
          (status0, add_numbers_fn, env) =
             napi_create_function env None 0 AddNumbers add_numbers_fn;
          (status1, env) = napi_set_named_property env exports ''addNumbers'' add_numbers_fn
      in (Some exports, env))"

section \<open>\<^verbatim>\<open>src/native/binding.cpp\<close>\<close>

text \<open>
  \<^verbatim>\<open>napi_value Init(napi_env env, napi_value exports)\<close>, the module initialisation
  function that \<^verbatim>\<open>NAPI_MODULE\<close> registers. Each status is checked; a failure throws and
  returns \<^verbatim>\<open>nullptr\<close>.
\<close>

definition Init :: "napi_env \<Rightarrow> napi_value \<Rightarrow> napi_value \<Rightarrow> napi_value option \<times> napi_env" where
  "Init env exports uninit =
     (let add_numbers_fn = uninit;
          (status, add_numbers_fn, env) =
             napi_create_function env None 0 AddNumbers add_numbers_fn
      in if status \<noteq> napi_ok
         then (let (s, env) = napi_throw_error env None ''Failed to create addNumbers function''
               in (None, env))
         else
           (let (status, env) =
                  napi_set_named_property env exports ''addNumbers'' add_numbers_fn
            in if status \<noteq> napi_ok
               then (let (s, env) =
                           napi_throw_error env None ''Failed to set addNumbers property''
                     in (None, env))
               else (Some exports, env)))"

section \<open>What the registration calls answer\<close>

text \<open>
  The status of the two host calls of a registration run on \<open>env\<close> and \<open>exports\<close>:
  of the call that creates the callable, and of the call that attaches it, made in the
  environment and with the handle the first call leaves.
\<close>

definition registration_create_status :: "napi_env \<Rightarrow> napi_value \<Rightarrow> napi_status" where
  "registration_create_status env uninit =
     fst (napi_create_function env None 0 AddNumbers uninit)"

definition registration_attach_status ::
  "napi_env \<Rightarrow> napi_value \<Rightarrow> napi_value \<Rightarrow> napi_status"
where
  "registration_attach_status env exports uninit =
     (let (status, add_numbers_fn, env) = napi_create_function env None 0 AddNumbers uninit
      in fst (napi_set_named_property env exports ''addNumbers'' add_numbers_fn))"

text \<open>The function object that \<open>napi_create_function\<close> allocates for \<open>addNumbers\<close>.\<close>

definition new_function :: js_object where
  "new_function =
     \<lparr>callable = Some AddNumbers, fn_name = None, properties = Map.empty,
      on_set = (\<lambda>name. Stores)\<rparr>"

text \<open>
  A host at module load, for the examples: one object in the heap, the exports surface
  \<open>Ref 0\<close>, an ordinary object without properties; no exception pending; both calls able
  to succeed.
\<close>

definition example_env :: napi_env where
  "example_env =
     \<lparr>heap = [\<lparr>callable = None, fn_name = None, properties = Map.empty,
               on_set = (\<lambda>name. Stores)\<rparr>],
      pending_exception = None,
      create_function_fault = napi_ok,
      set_named_property_fault = napi_ok\<rparr>"

text \<open>The same host with a frozen exports surface, \<open>Object.freeze({})\<close>.\<close>

definition frozen_exports_env :: napi_env where
  "frozen_exports_env =
     \<lparr>heap = [\<lparr>callable = None, fn_name = None, properties = Map.empty,
               on_set = (\<lambda>name. Ignores)\<rparr>],
      pending_exception = None,
      create_function_fault = napi_ok,
      set_named_property_fault = napi_ok\<rparr>"

text \<open>
  The same host with an exports surface that has a setter for \<open>addNumbers\<close> which throws
  \<open>boom\<close>.
\<close>

definition throwing_setter_env :: napi_env where
  "throwing_setter_env =
     \<lparr>heap = [\<lparr>callable = None, fn_name = None, properties = Map.empty,
               on_set = (\<lambda>name. if name = ''addNumbers'' then Throws ''boom'' else Stores)\<rparr>],
      pending_exception = None,
      create_function_fault = napi_ok,
      set_named_property_fault = napi_ok\<rparr>"

section \<open>Auxiliary facts\<close>

text \<open>
  The array that \<open>napi_get_cb_info\<close> fills has the size asked for, so that \<open>args[0]\<close> and
  \<open>args[1]\<close> of \<open>addNumbers\<close> are places of it.
\<close>

lemma napi_get_cb_info_length:
  "length (snd (snd (napi_get_cb_info env info argc))) = argc"
  by (simp add: napi_get_cb_info_def)

lemma addNumbers_two_numbers:
  "addNumbers env \<lparr>cb_args = Number i # Number j # rest, cb_this = t\<rparr> uninit =
     (Number (sint (word_of_int i + word_of_int j :: int32_t)), env)"
  by (simp add: addNumbers_def napi_get_cb_info_def napi_get_value_int32_def
      napi_create_int32_def)

lemma signed_wrap:
  "sint (a + b :: int32_t) = (sint a + sint b + 2 ^ 31) mod 2 ^ 32 - 2 ^ 31"
  by (simp add: sint_word_ariths signed_take_bit_eq_take_bit_shift take_bit_eq_mod)

lemma addNumbers_extra_arguments:
  "addNumbers env \<lparr>cb_args = x # y # rest, cb_this = t\<rparr> uninit =
     addNumbers env \<lparr>cb_args = [x, y], cb_this = t'\<rparr> uninit"
  by (simp add: addNumbers_def napi_get_cb_info_def)

lemma create_status_cases:
  "registration_create_status env uninit =
     (if pending_exception env \<noteq> None then napi_pending_exception
      else create_function_fault env)"
  by (simp add: registration_create_status_def napi_create_function_def)

lemma Init_create_fails:
  "registration_create_status env uninit \<noteq> napi_ok \<Longrightarrow>
   Init env exports uninit =
     (None, snd (napi_throw_error env None ''Failed to create addNumbers function''))"
  by (auto simp: Init_def registration_create_status_def napi_create_function_def
      split: if_splits prod.splits)

lemma Init_attach_fails:
  "registration_create_status env uninit = napi_ok \<Longrightarrow>
   registration_attach_status env exports uninit \<noteq> napi_ok \<Longrightarrow>
   Init env exports uninit =
     (None,
      snd (napi_throw_error
             (snd (napi_set_named_property (env\<lparr>heap := heap env @ [new_function]\<rparr>) exports
                     ''addNumbers'' (Ref (length (heap env)))))
             None ''Failed to set addNumbers property''))"
  by (auto simp: Init_def registration_create_status_def registration_attach_status_def
      napi_create_function_def new_function_def
      split: if_splits prod.splits)

text \<open>After \<open>napi_throw_error\<close> an exception is pending, thrown now or before.\<close>

lemma napi_throw_error_pending:
  "pending_exception (snd (napi_throw_error env code msg)) \<noteq> None"
  by (simp add: napi_throw_error_def)

lemma Init_succeeds:
  "registration_create_status env uninit = napi_ok \<Longrightarrow>
   registration_attach_status env exports uninit = napi_ok \<Longrightarrow>
   Init env exports uninit =
     (Some exports,
      snd (napi_set_named_property (env\<lparr>heap := heap env @ [new_function]\<rparr>) exports
             ''addNumbers'' (Ref (length (heap env)))))"
  by (auto simp: Init_def registration_create_status_def registration_attach_status_def
      napi_create_function_def new_function_def
      split: if_splits prod.splits)

lemma init_succeeds:
  "registration_create_status env uninit = napi_ok \<Longrightarrow>
   init env exports uninit' =
     (Some exports,
      snd (napi_set_named_property (env\<lparr>heap := heap env @ [new_function]\<rparr>) exports
             ''addNumbers'' (Ref (length (heap env)))))"
  by (auto simp: init_def registration_create_status_def napi_create_function_def
      new_function_def split: if_splits prod.splits)

text \<open>\<open>Init\<close> reads \<open>add_numbers_fn\<close> only after the host has written it.\<close>

lemma Init_never_reads_uninit: "Init env exports uninit = Init env exports uninit'"
  by (simp add: Init_def napi_create_function_def)

lemma init_returns_exports: "fst (init env exports uninit) = Some exports"
  by (simp add: init_def split: prod.splits)

lemma example_env_statuses:
  "registration_create_status example_env u = napi_ok"
  "registration_attach_status example_env (Ref 0) u = napi_ok"
  "registration_create_status (example_env\<lparr>create_function_fault := napi_generic_failure\<rparr>) u
     = napi_generic_failure"
  "registration_create_status (example_env\<lparr>set_named_property_fault := napi_generic_failure\<rparr>) u
     = napi_ok"
  "registration_attach_status
     (example_env\<lparr>set_named_property_fault := napi_generic_failure\<rparr>) (Ref 0) u
     = napi_generic_failure"
  "registration_create_status throwing_setter_env u = napi_ok"
  "registration_attach_status throwing_setter_env (Ref 0) u = napi_generic_failure"
  "registration_create_status frozen_exports_env u = napi_ok"
  "registration_attach_status frozen_exports_env (Ref 0) u = napi_ok"
  by (simp_all add: example_env_def throwing_setter_env_def frozen_exports_env_def
      registration_create_status_def registration_attach_status_def
      napi_create_function_def napi_set_named_property_def)

text \<open>
  Which exception is pending after a failed registration: the one \<open>Init\<close> throws when the
  failing call left none, and the host's own when the failing call raised one, since
  \<open>napi_throw_error\<close> is then refused.
\<close>

lemma Init_failure_examples:
  "pending_exception
     (snd (Init (example_env\<lparr>create_function_fault := napi_generic_failure\<rparr>) (Ref 0) u))
     = Some ''Failed to create addNumbers function''"
  "pending_exception
     (snd (Init (example_env\<lparr>set_named_property_fault := napi_generic_failure\<rparr>) (Ref 0) u))
     = Some ''Failed to set addNumbers property''"
  "pending_exception (snd (Init example_env Undefined u))
     = Some ''TypeError: Cannot convert undefined or null to object''"
  "pending_exception (snd (Init throwing_setter_env (Ref 0) u)) = Some ''boom''"
  by (simp_all add: Init_def example_env_def throwing_setter_env_def
      napi_create_function_def napi_set_named_property_def napi_throw_error_def)

section \<open>The addition\<close>

text \<open>
  C1. For every pair of 32-bit signed integers, passed as the two arguments of a call,
  \<open>addNumbers\<close> returns the number whose value is the sum of the two reduced to 32 bits
  in two's complement: the sum itself when it lies between \<open>- 2 ^ 31\<close> and \<open>2 ^ 31 - 1\<close>,
  and the sum shifted by \<open>2 ^ 32\<close> into that range otherwise. Nothing checks for overflow:
  no exception is pending after the call that was not pending before.
\<close>

theorem addNumbers_wrapping_sum:
  fixes a b :: int32_t
  shows "fst (addNumbers env \<lparr>cb_args = [Number (sint a), Number (sint b)], cb_this = t\<rparr> uninit)
           = Number ((sint a + sint b + 2 ^ 31) mod 2 ^ 32 - 2 ^ 31)
         \<and> - (2 ^ 31) \<le> (sint a + sint b + 2 ^ 31) mod 2 ^ 32 - (2 ^ 31 :: int)
         \<and> (sint a + sint b + 2 ^ 31) mod 2 ^ 32 - (2 ^ 31 :: int) < 2 ^ 31
         \<and> pending_exception
              (snd (addNumbers env \<lparr>cb_args = [Number (sint a), Number (sint b)], cb_this = t\<rparr>
                      uninit))
           = pending_exception env"
  by (simp add: addNumbers_two_numbers signed_wrap)

text \<open>
  C4. The call \<open>addNumbers(2147483647, 1)\<close> returns \<open>-2147483648\<close>: the sum wraps at
  the 32-bit signed boundary, and no error is raised.
\<close>

theorem addNumbers_int_max_plus_one:
  "fst (addNumbers env \<lparr>cb_args = [Number 2147483647, Number 1], cb_this = t\<rparr> uninit)
     = Number (- 2147483648)
   \<and> pending_exception
        (snd (addNumbers env \<lparr>cb_args = [Number 2147483647, Number 1], cb_this = t\<rparr> uninit))
     = pending_exception env"
  by (simp add: addNumbers_two_numbers)

text \<open>
  C6. For every pair of 32-bit signed integers \<open>a\<close> and \<open>b\<close>, \<open>addNumbers(a, b)\<close> and
  \<open>addNumbers(b, a)\<close> are equal.
\<close>

theorem addNumbers_commutative:
  fixes a b :: int32_t
  shows "addNumbers env \<lparr>cb_args = [Number (sint a), Number (sint b)], cb_this = t\<rparr> uninit
       = addNumbers env \<lparr>cb_args = [Number (sint b), Number (sint a)], cb_this = t\<rparr> uninit"
  by (simp add: addNumbers_two_numbers add.commute)

text \<open>C7. For every 32-bit signed integer \<open>a\<close>, \<open>addNumbers(a, 0)\<close> is \<open>a\<close>.\<close>

theorem addNumbers_zero_right:
  fixes a :: int32_t
  shows "fst (addNumbers env \<lparr>cb_args = [Number (sint a), Number 0], cb_this = t\<rparr> uninit)
       = Number (sint a)"
  by (simp add: addNumbers_two_numbers)

text \<open>
  C8 states that \<open>addNumbers\<close> is stateless: that no call reads or writes state shared
  with another call. The code breaks this where it breaks C3. When an argument is not a
  number, \<^verbatim>\<open>napi_get_value_int32\<close> writes nothing, \<^verbatim>\<open>test.cpp\<close> lines 11 and 12 do not
  look at the status, and line 14 adds what the storage of \<open>a\<close> or \<open>b\<close> held before the
  call. That storage is stack memory which earlier calls have written: where the call
  \<open>addNumbers(40, 2)\<close> has left \<open>40\<close> and \<open>2\<close> in it, the call \<open>addNumbers(1, undefined)\<close>
  returns \<open>3\<close>, and the same call returns \<open>1\<close> where it held zeros.
\<close>

theorem addNumbers_reads_leftover_locals:
  "fst (addNumbers env \<lparr>cb_args = [Number 1, Undefined], cb_this = t\<rparr> (40, 2)) = Number 3
   \<and> fst (addNumbers env \<lparr>cb_args = [Number 1, Undefined], cb_this = t\<rparr> (0, 0)) = Number 1
   \<and> fst (addNumbers env \<lparr>cb_args = [Number i, Undefined], cb_this = t\<rparr> (a0, b0))
       = Number (sint (word_of_int i + b0))
   \<and> fst (addNumbers env \<lparr>cb_args = [Undefined, Number j], cb_this = t\<rparr> (a0, b0))
       = Number (sint (a0 + word_of_int j))"
  by (simp add: addNumbers_def napi_get_cb_info_def napi_get_value_int32_def
      napi_create_int32_def)

text \<open>
  C10. The result depends on the first two arguments only: \<open>napi_get_cb_info\<close>, asked for
  two, hands over the first two arguments and none of the others, a call with further
  arguments does what the call with the first two alone does, and two calls whose first
  two arguments are the same 32-bit integers return the same value, however many arguments
  follow in either.
\<close>

theorem addNumbers_ignores_extra_arguments:
  fixes a b :: int32_t
  shows "fst (addNumbers env
               \<lparr>cb_args = Number (sint a) # Number (sint b) # rest, cb_this = t\<rparr> uninit)
       = fst (addNumbers env'
               \<lparr>cb_args = Number (sint a) # Number (sint b) # rest', cb_this = t'\<rparr> uninit')
     \<and> addNumbers env \<lparr>cb_args = x # y # rest, cb_this = t\<rparr> uninit
       = addNumbers env \<lparr>cb_args = [x, y], cb_this = t\<rparr> uninit
     \<and> snd (snd (napi_get_cb_info env \<lparr>cb_args = x # y # rest, cb_this = t\<rparr> 2)) = [x, y]"
  by (simp add: addNumbers_two_numbers napi_get_cb_info_def
      addNumbers_extra_arguments [of env x y rest t uninit t])

text \<open>
  C3 asks for a defined error when fewer than two arguments are supplied. The code gives
  none. With no argument both \<open>a\<close> and \<open>b\<close> keep the content they had at their
  declaration, with one argument \<open>b\<close> does, and the call returns the sum as if nothing
  were wrong: the same call \<open>addNumbers(1)\<close> returns \<open>1\<close> when the storage of \<open>b\<close> held
  \<open>0\<close> and \<open>6\<close> when it held \<open>5\<close>, and the environment, with its pending exception, is
  as before.
\<close>

theorem addNumbers_missing_arguments:
  "addNumbers env \<lparr>cb_args = [], cb_this = t\<rparr> (a0, b0) = (Number (sint (a0 + b0)), env)
   \<and> addNumbers env \<lparr>cb_args = [Number 1], cb_this = t\<rparr> (a0, 0) = (Number 1, env)
   \<and> addNumbers env \<lparr>cb_args = [Number 1], cb_this = t\<rparr> (a0, 5) = (Number 6, env)"
  by (simp add: addNumbers_def napi_get_cb_info_def napi_get_value_int32_def
      napi_create_int32_def)

section \<open>Registration\<close>

text \<open>
  C2. Whenever the creation of the \<open>addNumbers\<close> callable fails, or attaching it to the
  exports surface fails, \<open>Init\<close> returns \<^verbatim>\<open>nullptr\<close>, not the exports surface, and an
  exception is pending for the host when it returns.
\<close>

theorem Init_failure_signalled:
  assumes "registration_create_status env uninit \<noteq> napi_ok
           \<or> registration_attach_status env exports uninit \<noteq> napi_ok"
  shows "fst (Init env exports uninit) = None
     \<and> pending_exception (snd (Init env exports uninit)) \<noteq> None"
proof (cases "registration_create_status env uninit = napi_ok")
  case False
  then show ?thesis
    by (simp add: Init_create_fails napi_throw_error_pending)
next
  case True
  with assms have "registration_attach_status env exports uninit \<noteq> napi_ok" by simp
  with True show ?thesis
    by (simp add: Init_attach_fails napi_throw_error_pending)
qed

theorem Init_failure_signalled_witness:
  "registration_create_status (example_env\<lparr>create_function_fault := napi_generic_failure\<rparr>)
       Undefined \<noteq> napi_ok
   \<and> fst (Init (example_env\<lparr>create_function_fault := napi_generic_failure\<rparr>) (Ref 0)
            Undefined) = None
   \<and> pending_exception
       (snd (Init (example_env\<lparr>create_function_fault := napi_generic_failure\<rparr>) (Ref 0)
               Undefined)) \<noteq> None
   \<and> registration_attach_status throwing_setter_env (Ref 0) Undefined \<noteq> napi_ok
   \<and> fst (Init throwing_setter_env (Ref 0) Undefined) = None
   \<and> pending_exception (snd (Init throwing_setter_env (Ref 0) Undefined)) \<noteq> None"
proof -
  have c: "registration_create_status
             (example_env\<lparr>create_function_fault := napi_generic_failure\<rparr>) Undefined \<noteq> napi_ok
           \<or> registration_attach_status
             (example_env\<lparr>create_function_fault := napi_generic_failure\<rparr>) (Ref 0) Undefined
             \<noteq> napi_ok"
    by (simp add: example_env_statuses)
  have a: "registration_create_status throwing_setter_env Undefined \<noteq> napi_ok
           \<or> registration_attach_status throwing_setter_env (Ref 0) Undefined \<noteq> napi_ok"
    by (simp add: example_env_statuses)
  show ?thesis
    using Init_failure_signalled [OF c] Init_failure_signalled [OF a]
    by (simp add: example_env_statuses)
qed

text \<open>
  C5 says that every successful run of \<open>Init\<close> leaves the exports surface with the
  property \<open>addNumbers\<close>. It does not when the surface is frozen: the host reports the
  store as done, \<open>Init\<close> returns the surface, and the surface is as it was.
\<close>

theorem Init_frozen_exports_counterexample:
  "fst (Init frozen_exports_env (Ref 0) Undefined) = Some (Ref 0)
   \<and> pending_exception (snd (Init frozen_exports_env (Ref 0) Undefined)) = None
   \<and> properties (heap (snd (Init frozen_exports_env (Ref 0) Undefined)) ! 0) ''addNumbers''
       = None
   \<and> heap (snd (Init frozen_exports_env (Ref 0) Undefined)) ! 0 = heap frozen_exports_env ! 0"
  by (simp add: Init_def frozen_exports_env_def napi_create_function_def
      napi_set_named_property_def)

text \<open>
  C5, amended. Every successful run of \<open>Init\<close> on an exports surface that is an object of
  the heap on which a store to \<open>addNumbers\<close> takes effect returns the handle it received.
  After it the surface has the property \<open>addNumbers\<close>, which refers to a new function
  object bound to \<open>addNumbers\<close>, and every other property it had, unchanged; the heap has
  that one object more and every other object is as it was; the pending exception and the
  rest of the environment are as they were.
\<close>

theorem Init_success_frame:
  assumes ok: "fst (Init env exports uninit) \<noteq> None"
    and obj: "exports = Ref h" and h: "h < length (heap env)"
    and st: "on_set (heap env ! h) ''addNumbers'' = Stores"
  shows "fst (Init env exports uninit) = Some exports
     \<and> length (heap (snd (Init env exports uninit))) = Suc (length (heap env))
     \<and> heap (snd (Init env exports uninit)) ! h =
         (heap env ! h)
           \<lparr>properties := (properties (heap env ! h))(''addNumbers'' \<mapsto> Ref (length (heap env)))\<rparr>
     \<and> heap (snd (Init env exports uninit)) ! length (heap env) =
         \<lparr>callable = Some AddNumbers, fn_name = None, properties = Map.empty,
          on_set = (\<lambda>name. Stores)\<rparr>
     \<and> (\<forall>k < length (heap env). k \<noteq> h \<longrightarrow>
           heap (snd (Init env exports uninit)) ! k = heap env ! k)
     \<and> (\<forall>name. name \<noteq> ''addNumbers'' \<longrightarrow>
           properties (heap (snd (Init env exports uninit)) ! h) name
             = properties (heap env ! h) name)
     \<and> pending_exception (snd (Init env exports uninit)) = pending_exception env
     \<and> create_function_fault (snd (Init env exports uninit)) = create_function_fault env
     \<and> set_named_property_fault (snd (Init env exports uninit)) = set_named_property_fault env"
proof -
  have c: "registration_create_status env uninit = napi_ok"
    using ok Init_create_fails [of env uninit exports] by fastforce
  have a: "registration_attach_status env exports uninit = napi_ok"
    using ok c Init_attach_fails [of env uninit exports] by fastforce
  from c have p: "pending_exception env = None"
    by (simp add: create_status_cases split: if_splits)
  from a c p obj h have f: "set_named_property_fault env = napi_ok"
    by (auto simp: registration_attach_status_def registration_create_status_def
        napi_create_function_def napi_set_named_property_def split: if_splits)
  from a obj have a': "registration_attach_status env (Ref h) uninit = napi_ok"
    by simp
  have r: "fst (Init env exports uninit) = Some exports"
    by (simp add: Init_succeeds [OF c a])
  have e: "snd (Init env exports uninit) =
      env\<lparr>heap := (heap env @ [new_function])
        [h := (heap env ! h)
           \<lparr>properties := (properties (heap env ! h))(''addNumbers'' \<mapsto> Ref (length (heap env)))\<rparr>]\<rparr>"
    using h f p st
    by (simp add: obj Init_succeeds [OF c a'] napi_set_named_property_def nth_append)
  show ?thesis
    using h by (simp add: r e new_function_def nth_append nth_list_update)
qed

theorem Init_success_frame_witness:
  "fst (Init example_env (Ref 0) Undefined) \<noteq> None
   \<and> (0 :: nat) < length (heap example_env)
   \<and> on_set (heap example_env ! 0) ''addNumbers'' = Stores
   \<and> fst (Init example_env (Ref 0) Undefined) = Some (Ref 0)
   \<and> length (heap (snd (Init example_env (Ref 0) Undefined))) = 2
   \<and> properties (heap (snd (Init example_env (Ref 0) Undefined)) ! 0) ''addNumbers''
       = Some (Ref 1)
   \<and> properties (heap (snd (Init example_env (Ref 0) Undefined)) ! 0) ''other'' = None
   \<and> callable (heap (snd (Init example_env (Ref 0) Undefined)) ! 1) = Some AddNumbers
   \<and> pending_exception (snd (Init example_env (Ref 0) Undefined)) = None"
proof -
  have ok: "fst (Init example_env (Ref 0) Undefined) \<noteq> None"
    by (simp add: Init_succeeds example_env_statuses)
  have h: "0 < length (heap example_env)"
    by (simp add: example_env_def)
  have st: "on_set (heap example_env ! 0) ''addNumbers'' = Stores"
    by (simp add: example_env_def)
  have x: "heap example_env ! 0 =
             \<lparr>callable = None, fn_name = None, properties = Map.empty,
              on_set = (\<lambda>name. Stores)\<rparr>"
    "length (heap example_env) = 1" "pending_exception example_env = None"
    by (simp_all add: example_env_def)
  show ?thesis
    using ok h st Init_success_frame [OF ok refl h st] by (simp add: x)
qed

text \<open>
  C9. The two registration routines, \<open>Init\<close> of \<^verbatim>\<open>binding.cpp\<close> and \<open>init\<close> of
  \<^verbatim>\<open>test.cpp\<close>, return the same handle and leave the same environment whenever both
  host calls succeed. When one of the calls fails, \<open>Init\<close> returns \<^verbatim>\<open>nullptr\<close> with an
  exception pending, and \<open>init\<close> still returns the exports handle.
\<close>

theorem init_Init_agree:
  "(registration_create_status env uninit = napi_ok
      \<and> registration_attach_status env exports uninit = napi_ok
    \<longrightarrow> init env exports uninit' = Init env exports uninit
        \<and> fst (Init env exports uninit) = Some exports)
   \<and> (registration_create_status env uninit \<noteq> napi_ok
      \<or> registration_attach_status env exports uninit \<noteq> napi_ok
    \<longrightarrow> fst (Init env exports uninit) = None
        \<and> pending_exception (snd (Init env exports uninit)) \<noteq> None
        \<and> fst (init env exports uninit') = Some exports)"
proof (intro conjI impI)
  assume s: "registration_create_status env uninit = napi_ok
      \<and> registration_attach_status env exports uninit = napi_ok"
  then show "init env exports uninit' = Init env exports uninit"
    using init_succeeds [of env uninit exports uninit'] by (simp add: Init_succeeds)
  from s show "fst (Init env exports uninit) = Some exports"
    by (simp add: Init_succeeds)
next
  assume f: "registration_create_status env uninit \<noteq> napi_ok
      \<or> registration_attach_status env exports uninit \<noteq> napi_ok"
  show "fst (init env exports uninit') = Some exports"
    by (rule init_returns_exports)
  show "fst (Init env exports uninit) = None"
    using f Init_create_fails [of env uninit exports] Init_attach_fails [of env uninit exports]
    by (cases "registration_create_status env uninit = napi_ok") auto
  show "pending_exception (snd (Init env exports uninit)) \<noteq> None"
    using f Init_create_fails [of env uninit exports] Init_attach_fails [of env uninit exports]
    by (cases "registration_create_status env uninit = napi_ok")
       (auto simp: napi_throw_error_pending)
qed

theorem init_Init_agree_witness:
  "registration_create_status example_env Undefined = napi_ok
   \<and> registration_attach_status example_env (Ref 0) Undefined = napi_ok
   \<and> init example_env (Ref 0) Null = Init example_env (Ref 0) Undefined
   \<and> fst (Init example_env (Ref 0) Undefined) = Some (Ref 0)
   \<and> registration_attach_status
       (example_env\<lparr>set_named_property_fault := napi_generic_failure\<rparr>) (Ref 0) Undefined
       \<noteq> napi_ok
   \<and> fst (Init (example_env\<lparr>set_named_property_fault := napi_generic_failure\<rparr>) (Ref 0)
            Undefined) = None
   \<and> fst (init (example_env\<lparr>set_named_property_fault := napi_generic_failure\<rparr>) (Ref 0)
            Null) = Some (Ref 0)"
  using init_Init_agree [of example_env Undefined "Ref 0" Null]
    init_Init_agree [of "example_env\<lparr>set_named_property_fault := napi_generic_failure\<rparr>"
      Undefined "Ref 0" Null]
  by (simp add: example_env_statuses)

end
